theory Spec2Isabelle
  imports Complex_Main
begin

section \<open>Strings and the character classes of the regular expressions\<close>

text \<open>
  A JavaScript string is a sequence of UTF-16 code units. The model uses HOL's
  \<open>string\<close> (a list of 8-bit characters), that is, the strings whose code units lie
  below 256. The classes below are the JavaScript classes \<open>\d\<close>, \<open>\w\<close> and \<open>\s\<close> cut down
  to that range: \<open>\d\<close> is \<open>[0-9]\<close>, \<open>\w\<close> is \<open>[A-Za-z0-9_]\<close>, and \<open>\s\<close> is tab, line feed,
  vertical tab, form feed, carriage return, space and the no-break space.
\<close>

definition is_digit :: "char \<Rightarrow> bool" where
  "is_digit c = (c \<in> set ''0123456789'')"

definition is_word :: "char \<Rightarrow> bool" where
  "is_word c =
     (c \<in> set ''ABCDEFGHIJKLMNOPQRSTUVWXYZabcdefghijklmnopqrstuvwxyz0123456789_'')"

definition is_space :: "char \<Rightarrow> bool" where
  "is_space c =
     (c \<in> {CHR 0x09, CHR 0x0A, CHR 0x0B, CHR 0x0C, CHR 0x0D, CHR '' '', CHR 0xA0})"

text \<open>\<open>numStr.split('.')\<close>: the pieces between the dots; never the empty list.\<close>

fun split_dot :: "string \<Rightarrow> string list" where
  "split_dot [] = [[]]"
| "split_dot (c # cs) =
     (if c = CHR ''.'' then [] # split_dot cs
      else (case split_dot cs of
              [] \<Rightarrow> [[c]]
            | p # ps \<Rightarrow> (c # p) # ps))"

text \<open>\<open>parts.join('.')\<close>.\<close>

fun join_dot :: "string list \<Rightarrow> string" where
  "join_dot [] = []"
| "join_dot [p] = p"
| "join_dot (p # q # ps) = p @ CHR ''.'' # join_dot (q # ps)"

text \<open>
  The lookahead \<open>(?=(\d{3})+(?!\d))\<close> at the text that follows a position: some positive
  number of groups of three digits, after which there is no digit. The regular
  expression engine backtracks over the number of groups, which is the disjunction.
\<close>

fun not_digit_next :: "string \<Rightarrow> bool" where
  "not_digit_next [] = True"
| "not_digit_next (c # cs) = (\<not> is_digit c)"

fun lookahead_groups :: "string \<Rightarrow> bool" where
  "lookahead_groups (a # b # c # rest) =
     (is_digit a \<and> is_digit b \<and> is_digit c \<and> (not_digit_next rest \<or> lookahead_groups rest))"
| "lookahead_groups _ = False"

text \<open>
  \<open>\B\<close> holds at a position when the characters on both sides are both word characters
  or both not; a missing neighbour (start or end of the text) counts as not a word
  character.
\<close>

fun word_before :: "char option \<Rightarrow> bool" where
  "word_before None = False"
| "word_before (Some c) = is_word c"

fun non_boundary :: "char option \<Rightarrow> string \<Rightarrow> bool" where
  "non_boundary prev [] = (\<not> word_before prev)"
| "non_boundary prev (c # cs) = (word_before prev = is_word c)"

text \<open>
  \<open>s.replace(/\B(?=(\d{3})+(?!\d))/g, ' ')\<close>: the pattern matches the empty string, so the
  global replacement visits every position of the text once, from the left, and puts
  a space at each position where the pattern matches. \<open>prev\<close> is the character before
  the position. At the end of the text the lookahead has nothing to read.
\<close>

fun replace_groups :: "char option \<Rightarrow> string \<Rightarrow> string" where
  "replace_groups prev [] = []"
| "replace_groups prev (c # cs) =
     (if non_boundary prev (c # cs) \<and> lookahead_groups (c # cs)
      then CHR '' '' # c # replace_groups (Some c) cs
      else c # replace_groups (Some c) cs)"

text \<open>\<open>addThousandsSeparators\<close> (NumberInput.js, lines 22-26; the same in both versions).\<close>

definition addThousandsSeparators :: "string \<Rightarrow> string" where
  "addThousandsSeparators numStr =
     (case split_dot numStr of
        [] \<Rightarrow> []
      | p # ps \<Rightarrow> join_dot (replace_groups None p # ps))"

text \<open>\<open>removeThousandsSeparators\<close> (lines 29-31): \<open>numStr.replace(/\s/g, '')\<close>.\<close>

definition removeThousandsSeparators :: "string \<Rightarrow> string" where
  "removeThousandsSeparators numStr = filter (\<lambda>c. \<not> is_space c) numStr"

text \<open>\<open>input.startsWith('=')\<close>.\<close>

fun startsWithEq :: "string \<Rightarrow> bool" where
  "startsWithEq [] = False"
| "startsWithEq (c # cs) = (c = CHR ''='')"

subsection \<open>The grouping the specification describes\<close>

text \<open>
  The specification's words: in the integer portion, a separator stands before every
  group of three digits counted from the right, except before the leftmost group. So
  a single space goes before the digit at index \<open>i\<close> exactly when \<open>i\<close> is not \<open>0\<close> and the
  number of digits from \<open>i\<close> to the end is a multiple of three.
\<close>

definition spec_grouping :: "string \<Rightarrow> string" where
  "spec_grouping ds =
     concat (map (\<lambda>i. (if 0 < i \<and> (length ds - i) mod 3 = 0 then '' '' else '''') @ [ds ! i])
                 [0..<length ds])"


text \<open>
  The same grouping, computed from the left with the number of digits still to come;
  used in the proofs to connect \<open>replace_groups\<close> with \<open>spec_grouping\<close>.
\<close>

fun group_from_right :: "string \<Rightarrow> string" where
  "group_from_right [] = []"
| "group_from_right (c # cs) =
     c # (if cs \<noteq> [] \<and> length cs mod 3 = 0 then CHR '' '' # group_from_right cs
          else group_from_right cs)"

section \<open>JavaScript numbers and the functions the component takes from its platform\<close>

text \<open>
  A JavaScript number is \<open>NaN\<close> or a numeric value. The numeric values (the doubles
  other than \<open>NaN\<close>) and the arithmetic on them are not part of the repository, so they
  are a type parameter \<open>'n\<close> and a record of functions: every theorem about the handlers
  holds for every such record, the IEEE doubles among them.
\<close>

datatype 'n jsnum = NaN | Num 'n

text \<open>
  \<^item> \<open>parseFloat\<close>, \<open>parseInt10\<close>: the globals \<open>parseFloat(s)\<close> and \<open>parseInt(s, 10)\<close>;
  \<^item> \<open>toFixed x d\<close>: \<open>x.toFixed(d)\<close>; \<open>None\<close> when it throws a \<open>RangeError\<close> (digits
    outside 0..100);
  \<^item> \<open>num_less\<close>, \<open>num_add\<close>, \<open>num_sub\<close>: \<open><\<close>, \<open>+\<close> and \<open>-\<close> on numeric values (a sum or
    difference of numeric values can be \<open>NaN\<close>, as for infinities);
  \<^item> \<open>num_zero\<close>: whether a numeric value is \<open>+0\<close> or \<open>-0\<close>;
  \<^item> \<open>literal\<close>: the value of an integer literal of the source text;
  \<^item> \<open>evaluate\<close>: the body of the \<open>try\<close> block around mathjs' \<open>evaluate\<close>, up to the
    number it yields; \<open>None\<close> when \<open>evaluate\<close> throws or yields a value that has no
    \<open>toFixed\<close> method (the call then throws inside the same \<open>try\<close>).
\<close>

record 'n platform =
  parseFloat :: "string \<Rightarrow> 'n jsnum"
  parseInt10 :: "string \<Rightarrow> 'n jsnum"
  toFixed :: "'n jsnum \<Rightarrow> 'n jsnum \<Rightarrow> string option"
  num_less :: "'n \<Rightarrow> 'n \<Rightarrow> bool"
  num_add :: "'n \<Rightarrow> 'n \<Rightarrow> 'n jsnum"
  num_sub :: "'n \<Rightarrow> 'n \<Rightarrow> 'n jsnum"
  num_zero :: "'n \<Rightarrow> bool"
  literal :: "int \<Rightarrow> 'n"
  evaluate :: "string \<Rightarrow> 'n jsnum option"

text \<open>The global \<open>isNaN\<close>, applied to a number.\<close>

fun isNaN :: "'n jsnum \<Rightarrow> bool" where
  "isNaN NaN = True"
| "isNaN (Num x) = False"

text \<open>\<open>a < b\<close> on numbers: false as soon as one side is \<open>NaN\<close>. \<open>a > b\<close> is \<open>b < a\<close>.\<close>

fun js_lt :: "'n platform \<Rightarrow> 'n jsnum \<Rightarrow> 'n jsnum \<Rightarrow> bool" where
  "js_lt P (Num x) (Num y) = num_less P x y"
| "js_lt P _ _ = False"

definition js_gt :: "'n platform \<Rightarrow> 'n jsnum \<Rightarrow> 'n jsnum \<Rightarrow> bool" where
  "js_gt P a b = js_lt P b a"

text \<open>\<open>a + b\<close> and \<open>a - b\<close> on numbers: \<open>NaN\<close> as soon as one side is \<open>NaN\<close>.\<close>

fun js_add :: "'n platform \<Rightarrow> 'n jsnum \<Rightarrow> 'n jsnum \<Rightarrow> 'n jsnum" where
  "js_add P (Num x) (Num y) = num_add P x y"
| "js_add P _ _ = NaN"

fun js_sub :: "'n platform \<Rightarrow> 'n jsnum \<Rightarrow> 'n jsnum \<Rightarrow> 'n jsnum" where
  "js_sub P (Num x) (Num y) = num_sub P x y"
| "js_sub P _ _ = NaN"

text \<open>\<open>x || 0\<close> on a number: \<open>NaN\<close>, \<open>+0\<close> and \<open>-0\<close> are falsy and give the literal \<open>0\<close>.\<close>

fun js_or_zero :: "'n platform \<Rightarrow> 'n jsnum \<Rightarrow> 'n jsnum" where
  "js_or_zero P NaN = Num (literal P 0)"
| "js_or_zero P (Num x) = (if num_zero P x then Num (literal P 0) else Num x)"

section \<open>The component NumberInput\<close>

text \<open>
  The properties of the component. \<open>min\<close>, \<open>max\<close>, \<open>step\<close> and \<open>dec\<close> are texts, with
  \<open>'*'\<close> for "not set"; \<open>onChange\<close> is optional, and \<open>onChange_given\<close> says whether the
  parent passed it.
\<close>

record props =
  min_prop :: string
  max_prop :: string
  step_prop :: string
  dec_prop :: string
  id_prop :: string
  onChange_given :: bool

text \<open>
  The two state variables: \<open>value\<close> (the text of the field) and \<open>error\<close>. A handler
  reads the state of the render it belongs to and requests updates with \<open>setValue\<close> and
  \<open>setError\<close>; the model of a handler takes that state and returns the state with the
  requested updates applied, the last request for a variable winning.
\<close>

record field_state =
  value_st :: string
  error_st :: bool

text \<open>
  What a handler does besides updating the state, in the order it does it:
  \<^item> \<open>PreventDefault\<close>: \<open>e.preventDefault()\<close>;
  \<^item> \<open>BlurTarget\<close>: \<open>e.target.blur()\<close>;
  \<^item> \<open>FocusSelf\<close>: \<open>inputRef.current.focus()\<close>;
  \<^item> \<open>FocusSelfLater\<close>: \<open>setTimeout(() => ref.current.focus(), 0)\<close>;
  \<^item> \<open>OnChange t\<close>: \<open>onChange(t)\<close>;
  \<^item> \<open>NavigateToField d i\<close>: \<open>navigateToField(d, i)\<close>;
  \<^item> \<open>SetSelectionRange a b\<close>: \<open>e.target.setSelectionRange(a, b)\<close>;
  \<^item> \<open>Uncaught\<close>: an exception leaves the handler (the \<open>RangeError\<close> of \<open>toFixed\<close>
    outside a \<open>try\<close>). The state updates requested before it stay requested.
\<close>

datatype effect =
  PreventDefault
| BlurTarget
| FocusSelf
| FocusSelfLater
| OnChange string
| NavigateToField string string
| SetSelectionRange nat nat
| Uncaught

text \<open>\<open>const decimals = dec === '*' ? 2 : parseInt(dec, 10)\<close> (line 19).\<close>

definition decimals :: "'n platform \<Rightarrow> props \<Rightarrow> 'n jsnum" where
  "decimals P p =
     (if dec_prop p = ''*'' then Num (literal P 2) else parseInt10 P (dec_prop p))"

text \<open>
  \<open>evaluateFormula\<close> (lines 34-45, the same in both versions). \<open>None\<close> is the \<open>null\<close> of
  the \<open>catch\<close> branch; \<open>tl\<close> is \<open>input.slice(1)\<close> on a text that starts with \<open>=\<close>.
\<close>

definition evaluateFormula :: "'n platform \<Rightarrow> props \<Rightarrow> string \<Rightarrow> string option" where
  "evaluateFormula P p input =
     (if startsWithEq input
      then (case evaluate P (tl input) of
              None \<Rightarrow> None
            | Some result \<Rightarrow> toFixed P result (decimals P p))
      else Some input)"

text \<open>
  \<open>validateMinMax\<close> of the first version (lines 48-52): the value it passes to
  \<open>setError\<close>.
\<close>

definition validateMinMax :: "'n platform \<Rightarrow> props \<Rightarrow> 'n jsnum \<Rightarrow> bool" where
  "validateMinMax P p num =
     (let minNum = (if min_prop p \<noteq> ''*'' then parseFloat P (min_prop p) else NaN);
          maxNum = (if max_prop p \<noteq> ''*'' then parseFloat P (max_prop p) else NaN)
      in (\<not> isNaN minNum \<and> js_lt P num minNum) \<or> (\<not> isNaN maxNum \<and> js_gt P num maxNum))"

text \<open>
  \<open>parseFloat(processed)\<close> where \<open>processed\<close> is the result of \<open>evaluateFormula\<close>:
  \<open>parseFloat\<close> converts its argument to a string, and \<open>null\<close> becomes \<open>"null"\<close>.
\<close>

fun string_of_evaluated :: "string option \<Rightarrow> string" where
  "string_of_evaluated None = ''null''"
| "string_of_evaluated (Some t) = t"

text \<open>The events a handler reads.\<close>

record key_event =
  key :: string
  selectionStart :: nat
  ctrlKey :: bool
  metaKey :: bool

record 'n wheel_event =
  deltaY :: "'n jsnum"

definition allowedChars :: "string list" where
  "allowedChars = map (\<lambda>c. [c]) ''0123456789.,=-+/*()''"

text \<open>
  \<open>handleKeyDown\<close> of the first version (lines 55-107). \<open>allowedChars\<close> is the list of
  the one-character keys the source spells out.
\<close>

definition handleKeyDown :: "props \<Rightarrow> key_event \<Rightarrow> field_state \<Rightarrow> field_state \<times> effect list" where
  "handleKeyDown p e s =
     (if key e = '','' then (s\<lparr>value_st := value_st s @ ''.''\<rparr>, [PreventDefault])
      else if key e = ''='' \<and> selectionStart e \<noteq> 0 then (s, [PreventDefault])
      else if key e \<in> set [''Tab'', ''Enter''] then (s, [PreventDefault, BlurTarget])
      else if key e \<notin> set allowedChars
              \<and> key e \<notin> set [''Backspace'', ''Delete'', ''ArrowLeft'', ''ArrowRight'',
                                 ''ArrowUp'', ''ArrowDown'']
              \<and> \<not> (ctrlKey e \<or> metaKey e)
      then (s, [PreventDefault])
      else if key e \<in> set [''ArrowLeft'', ''ArrowRight'', ''ArrowUp'', ''ArrowDown'']
      then (if key e = ''ArrowUp''
            then (s, [PreventDefault, NavigateToField ''prev'' (id_prop p)])
            else if key e = ''ArrowDown''
            then (s, [PreventDefault, NavigateToField ''next'' (id_prop p)])
            else if key e = ''ArrowLeft'' \<and> selectionStart e = 0
            then (s, [PreventDefault, NavigateToField ''prev'' (id_prop p)])
            else if key e = ''ArrowRight'' \<and> selectionStart e = length (value_st s)
            then (s, [PreventDefault, NavigateToField ''next'' (id_prop p)])
            else (s, []))
      else (s, []))"

text \<open>\<open>handleInput\<close> of the first version (lines 110-113); \<open>rawValue\<close> is \<open>e.target.value\<close>.\<close>

definition handleInput :: "string \<Rightarrow> field_state \<Rightarrow> field_state \<times> effect list" where
  "handleInput rawValue s = (s\<lparr>value_st := rawValue\<rparr>, [])"

text \<open>\<open>handleFocus\<close> of the first version (lines 116-120).\<close>

definition handleFocus :: "field_state \<Rightarrow> field_state \<times> effect list" where
  "handleFocus s =
     (s\<lparr>value_st := removeThousandsSeparators (value_st s)\<rparr>, [SetSelectionRange 0 0])"

text \<open>The end of both commit handlers: \<open>setValue(formatted); if (onChange) onChange(formatted)\<close>.\<close>

definition write_back :: "props \<Rightarrow> string \<Rightarrow> field_state \<Rightarrow> field_state \<times> effect list" where
  "write_back p formatted s =
     (s\<lparr>value_st := formatted\<rparr>, if onChange_given p then [OnChange formatted] else [])"

text \<open>\<open>handleBlur\<close> of the first version (lines 123-146).\<close>

definition handleBlur :: "'n platform \<Rightarrow> props \<Rightarrow> field_state \<Rightarrow> field_state \<times> effect list" where
  "handleBlur P p s =
     (if value_st s = [] then (s, [])
      else
        let processed = removeThousandsSeparators (value_st s);
            s1 = s\<lparr>error_st := False\<rparr>;
            evaluated = evaluateFormula P p processed
        in if startsWithEq processed \<and> evaluated = None
           then (s1\<lparr>error_st := True\<rparr>, [FocusSelfLater])
           else
             let num = parseFloat P (string_of_evaluated evaluated);
                 s2 = s1\<lparr>error_st := validateMinMax P p num\<rparr>
             in (case toFixed P num (decimals P p) of
                   None \<Rightarrow> (s2, [Uncaught])
                 | Some t \<Rightarrow> write_back p (addThousandsSeparators t) s2))"

text \<open>\<open>handleWheel\<close> (lines 149-164; only the first version has it).\<close>

definition handleWheel ::
  "'n platform \<Rightarrow> props \<Rightarrow> 'n wheel_event \<Rightarrow> field_state \<Rightarrow> field_state \<times> effect list" where
  "handleWheel P p e s =
     (if step_prop p = ''*'' then (s, [PreventDefault])
      else
        let current = js_or_zero P (parseFloat P (removeThousandsSeparators (value_st s)));
            stepValue = parseFloat P (step_prop p);
            newValue = (if js_lt P (deltaY e) (Num (literal P 0))
                        then js_add P current stepValue
                        else js_sub P current stepValue);
            s1 = s\<lparr>error_st := validateMinMax P p newValue\<rparr>
        in (case toFixed P newValue (decimals P p) of
              None \<Rightarrow> (s1, [PreventDefault, Uncaught])
            | Some t \<Rightarrow>
                (let (s2, es) = write_back p (addThousandsSeparators t) s1
                 in (s2, PreventDefault # es))))"

subsection \<open>The second version of the component (NumberInput.js, lines 184-332)\<close>

text \<open>
  \<open>validateMinMax\<close> of the second version (lines 232-234): it returns whether the
  number is within the bounds.
\<close>

definition validateMinMax2 :: "'n platform \<Rightarrow> props \<Rightarrow> 'n jsnum \<Rightarrow> bool" where
  "validateMinMax2 P p num =
     (\<not> ((min_prop p \<noteq> ''*'' \<and> js_lt P num (parseFloat P (min_prop p)))
         \<or> (max_prop p \<noteq> ''*'' \<and> js_gt P num (parseFloat P (max_prop p)))))"

text \<open>
  \<open>handleBlur\<close> of the second version (lines 286-311). It has no test for the empty
  text; \<open>processed = evaluated !== null ? evaluated : processed\<close> keeps the text when
  \<open>evaluated\<close> is \<open>null\<close>.
\<close>

definition handleBlur2 :: "'n platform \<Rightarrow> props \<Rightarrow> field_state \<Rightarrow> field_state \<times> effect list" where
  "handleBlur2 P p s =
     (let processed = removeThousandsSeparators (value_st s);
          s1 = s\<lparr>error_st := False\<rparr>;
          evaluated = evaluateFormula P p processed
      in if startsWithEq processed \<and> evaluated = None
         then (s1\<lparr>error_st := True\<rparr>, [FocusSelf])
         else
           let processed2 = (case evaluated of None \<Rightarrow> processed | Some t \<Rightarrow> t);
               num = parseFloat P processed2
           in if isNaN num \<or> \<not> validateMinMax2 P p num
              then (s1\<lparr>error_st := True\<rparr>, [FocusSelf])
              else (case toFixed P num (decimals P p) of
                      None \<Rightarrow> (s1, [Uncaught])
                    | Some t \<Rightarrow> write_back p (addThousandsSeparators t) s1))"

section \<open>The navigation of App\<close>

text \<open>
  \<open>fieldOrder\<close> and \<open>fields\<close> (App.js, lines 23-32). A ref is modelled by whether its
  \<open>current\<close> is an element (\<open>True\<close>) or \<open>null\<close> (\<open>False\<close>).
\<close>

record refs =
  mainRef :: bool
  minRef :: bool
  maxRef :: bool
  stepRef :: bool
  decRef :: bool

definition fields :: "refs \<Rightarrow> (string \<times> bool) list" where
  "fields r =
     [(''mainInput'', mainRef r), (''minInput'', minRef r), (''maxInput'', maxRef r),
      (''stepInput'', stepRef r), (''decInput'', decRef r)]"

definition fieldOrder :: "string list" where
  "fieldOrder = [''mainInput'', ''minInput'', ''maxInput'', ''stepInput'', ''decInput'']"

text \<open>\<open>xs.indexOf(x)\<close>: the first index of \<open>x\<close>, or \<open>-1\<close>.\<close>

fun indexOf :: "'a list \<Rightarrow> 'a \<Rightarrow> int" where
  "indexOf [] x = - 1"
| "indexOf (y # ys) x =
     (if y = x then 0 else (let i = indexOf ys x in if i < 0 then - 1 else i + 1))"

text \<open>
  \<open>a % b\<close> on integers with \<open>b\<close> not zero: the remainder has the sign of the dividend.
\<close>

definition js_rem :: "int \<Rightarrow> int \<Rightarrow> int" where
  "js_rem a b = sgn a * (\<bar>a\<bar> mod \<bar>b\<bar>)"

text \<open>
  What \<open>navigateToField\<close> ends with: it calls \<open>focus()\<close> on a field, or does nothing,
  or throws a \<open>TypeError\<close> (reading \<open>.current\<close> of \<open>undefined\<close>).
\<close>

datatype nav_outcome = FocusField string | NoFocus | TypeError

text \<open>
  \<open>navigateToField\<close> (App.js, lines 35-47). With a direction other than \<open>'prev'\<close> and
  \<open>'next'\<close>, \<open>nextIndex\<close> stays \<open>undefined\<close>, \<open>fieldOrder[undefined]\<close> and then
  \<open>fields[undefined]\<close> are \<open>undefined\<close>, and \<open>nextField.current\<close> throws. An index outside
  the list gives \<open>undefined\<close> in the same way.
\<close>

definition navigateToField :: "refs \<Rightarrow> string \<Rightarrow> string \<Rightarrow> nav_outcome" where
  "navigateToField r direction currentId =
     (let currentIndex = indexOf fieldOrder currentId;
          len = int (length fieldOrder);
          nextIndex =
            (if direction = ''prev'' then Some (js_rem (currentIndex - 1 + len) len)
             else if direction = ''next'' then Some (js_rem (currentIndex + 1) len)
             else None)
      in (case nextIndex of
            None \<Rightarrow> TypeError
          | Some i \<Rightarrow>
              if 0 \<le> i \<and> i < len
              then (case map_of (fields r) (fieldOrder ! nat i) of
                      None \<Rightarrow> TypeError
                    | Some current \<Rightarrow>
                        if current then FocusField (fieldOrder ! nat i) else NoFocus)
              else TypeError))"


section \<open>A platform with exact decimal arithmetic\<close>

text \<open>
  To run the handlers on concrete inputs the platform has to be fixed. The platform
  below computes with rational numbers, exactly. It agrees with JavaScript wherever
  the numbers involved are doubles and the results of the operations are exact, as for
  integers below \<open>2^53\<close> and their sums and differences. It covers the plain decimal
  notation: \<open>parseFloat\<close> and \<open>parseInt\<close> read an optional sign and decimal digits (no
  exponent, no \<open>Infinity\<close>), and \<open>toFixed\<close> renders magnitudes below \<open>10^21\<close>.
\<close>

definition digit_value :: "char \<Rightarrow> nat" where
  "digit_value c = of_char c - 48"

definition digits_value :: "string \<Rightarrow> nat" where
  "digits_value ds = foldl (\<lambda>a c. 10 * a + digit_value c) 0 ds"

text \<open>An optional sign in front of a text: the factor it stands for and the rest.\<close>

fun take_sign :: "string \<Rightarrow> rat \<times> string" where
  "take_sign [] = (1, [])"
| "take_sign (c # cs) =
     (if c = CHR ''-'' then (- 1, cs)
      else if c = CHR ''+'' then (1, cs)
      else (1, c # cs))"

text \<open>
  \<open>parseFloat\<close>: leading white space is skipped; the longest prefix that is a decimal
  literal is read; without a digit the result is \<open>NaN\<close>.
\<close>

definition exact_parseFloat :: "string \<Rightarrow> rat jsnum" where
  "exact_parseFloat s =
     (let (sg, u) = take_sign (dropWhile is_space s);
          ip = takeWhile is_digit u;
          r = dropWhile is_digit u;
          fp = (case r of [] \<Rightarrow> [] | c # r' \<Rightarrow> if c = CHR ''.'' then takeWhile is_digit r' else [])
      in if ip = [] \<and> fp = [] then NaN
         else Num (sg * (of_nat (digits_value ip) + of_nat (digits_value fp) / 10 ^ length fp)))"

text \<open>\<open>parseInt(s, 10)\<close>: white space, an optional sign, then the decimal digits.\<close>

definition exact_parseInt10 :: "string \<Rightarrow> rat jsnum" where
  "exact_parseInt10 s =
     (let (sg, u) = take_sign (dropWhile is_space s);
          ip = takeWhile is_digit u
      in if ip = [] then NaN else Num (sg * of_nat (digits_value ip)))"

text \<open>The decimal digits of a natural number.\<close>

fun show_nat :: "nat \<Rightarrow> string" where
  "show_nat n =
     (if n < 10 then [char_of (48 + n)]
      else show_nat (n div 10) @ [char_of (48 + n mod 10)])"

text \<open>
  \<open>x.toFixed(f)\<close> for a numeric value \<open>x\<close> and \<open>f\<close> in 0..100, as ECMAScript gives it:
  a minus sign when \<open>x < 0\<close>; then the integer \<open>n\<close> for which \<open>n / 10^f\<close> is nearest to
  the magnitude (the larger one when two are equally near), written with at least
  \<open>f + 1\<close> digits and a point before the last \<open>f\<close> of them.
\<close>

definition fixed_digits :: "rat \<Rightarrow> nat \<Rightarrow> string" where
  "fixed_digits x f =
     (let n = nat \<lfloor>\<bar>x\<bar> * 10 ^ f + 1 / 2\<rfloor>;
          m = show_nat n;
          m2 = (if f \<noteq> 0 \<and> length m \<le> f then replicate (f + 1 - length m) CHR ''0'' @ m else m);
          k = length m2
      in (if x < 0 then ''-'' else []) @
         (if f = 0 then m2 else take (k - f) m2 @ ''.'' @ drop (k - f) m2))"

text \<open>
  \<open>toFixed\<close>: the digits argument is truncated to an integer, \<open>NaN\<close> counting as \<open>0\<close>;
  outside 0..100 the call throws; \<open>NaN.toFixed(f)\<close> is \<open>"NaN"\<close>.
\<close>

definition exact_toFixed :: "rat jsnum \<Rightarrow> rat jsnum \<Rightarrow> string option" where
  "exact_toFixed x d =
     (let f = (case d of NaN \<Rightarrow> 0 | Num q \<Rightarrow> (if 0 \<le> q then \<lfloor>q\<rfloor> else - \<lfloor>- q\<rfloor>))
      in if f < 0 \<or> 100 < f then None
         else (case x of NaN \<Rightarrow> Some ''NaN'' | Num q \<Rightarrow> Some (fixed_digits q (nat f))))"

text \<open>
  The evaluator on the two expressions of the specification's examples: \<open>2+3\<close> is \<open>5\<close>,
  and the incomplete \<open>2+\<close> is rejected, as is, here, every other text.
\<close>

definition sample_evaluate :: "string \<Rightarrow> rat jsnum option" where
  "sample_evaluate e = (if e = ''2+3'' then Some (Num 5) else None)"

definition exact_platform :: "rat platform" where
  "exact_platform =
     \<lparr>parseFloat = exact_parseFloat,
      parseInt10 = exact_parseInt10,
      toFixed = exact_toFixed,
      num_less = (\<lambda>x y. x < y),
      num_add = (\<lambda>x y. Num (x + y)),
      num_sub = (\<lambda>x y. Num (x - y)),
      num_zero = (\<lambda>x. x = 0),
      literal = of_int,
      evaluate = sample_evaluate\<rparr>"


section \<open>Separators: insertion and removal\<close>


lemma dot_not_space: "\<not> is_space CHR ''.''"
  by (simp add: is_space_def)

lemma space_is_space: "is_space CHR '' ''"
  by (simp add: is_space_def)

lemma split_dot_nonempty: "split_dot s \<noteq> []"
  by (induction s) (simp_all split: list.splits)

lemma join_split_dot: "join_dot (split_dot s) = s"
proof (induction s)
  case Nil
  then show ?case by simp
next
  case (Cons c cs)
  obtain p ps where sp: "split_dot cs = p # ps"
    using split_dot_nonempty [of cs] by (cases "split_dot cs") auto
  show ?case
  proof (cases "c = CHR ''.''")
    case True
    with Cons sp show ?thesis by simp
  next
    case False
    with Cons sp show ?thesis by (cases ps) auto
  qed
qed

lemma filter_replace_groups:
  "filter (\<lambda>c. \<not> is_space c) (replace_groups prev xs) = filter (\<lambda>c. \<not> is_space c) xs"
  by (induction xs arbitrary: prev) (simp_all add: space_is_space)

lemma filter_join_dot:
  "filter (\<lambda>c. \<not> is_space c) (join_dot ps) = join_dot (map (filter (\<lambda>c. \<not> is_space c)) ps)"
  by (induction ps rule: join_dot.induct) (simp_all add: dot_not_space)

lemma remove_add: "removeThousandsSeparators (addThousandsSeparators s) = removeThousandsSeparators s"
proof -
  obtain p ps where sp: "split_dot s = p # ps"
    using split_dot_nonempty [of s] by (cases "split_dot s") auto
  have "removeThousandsSeparators (addThousandsSeparators s)
        = join_dot (map (filter (\<lambda>c. \<not> is_space c)) (replace_groups None p # ps))"
    by (simp add: removeThousandsSeparators_def addThousandsSeparators_def sp filter_join_dot)
  also have "\<dots> = join_dot (map (filter (\<lambda>c. \<not> is_space c)) (split_dot s))"
    by (simp add: sp filter_replace_groups)
  also have "\<dots> = removeThousandsSeparators s"
    by (simp add: removeThousandsSeparators_def filter_join_dot [symmetric] join_split_dot)
  finally show ?thesis .
qed

text \<open>
  Claim C6. For every text without white space, and so for every numeric text without
  separators and every text \<open>toFixed\<close> produces, removing the separators from the result
  of \<open>addThousandsSeparators\<close> gives the text back.
\<close>

theorem C6_remove_after_add:
  "\<forall>c \<in> set s. \<not> is_space c \<Longrightarrow> removeThousandsSeparators (addThousandsSeparators s) = s"
proof -
  assume h: "\<forall>c \<in> set s. \<not> is_space c"
  have "removeThousandsSeparators s = s"
    using h by (simp add: removeThousandsSeparators_def)
  then show ?thesis by (simp add: remove_add)
qed

theorem C6_remove_after_add_witness:
  "addThousandsSeparators ''1234567.891'' = ''1 234 567.891'' \<and>
   removeThousandsSeparators (addThousandsSeparators ''1234567.891'') = ''1234567.891''"
proof -
  have h: "\<forall>c \<in> set ''1234567.891''. \<not> is_space c"
    by (simp add: is_space_def)
  have a: "addThousandsSeparators ''1234567.891'' = ''1 234 567.891''"
    by code_simp
  show ?thesis using a C6_remove_after_add [OF h] by simp
qed


lemma digit_is_word: "is_digit c \<Longrightarrow> is_word c"
  unfolding is_digit_def is_word_def by (elim disjE | simp)+

lemma digit_not_dot: "is_digit c \<Longrightarrow> c \<noteq> CHR ''.''"
  by (auto simp: is_digit_def)

lemma minus_not_word: "\<not> is_word CHR ''-''"
  by (simp add: is_word_def)

lemma minus_not_digit: "\<not> is_digit CHR ''-''"
  by (simp add: is_digit_def)

lemma lookahead_digits:
  "\<forall>c \<in> set ds. is_digit c \<Longrightarrow>
   lookahead_groups ds = (ds \<noteq> [] \<and> length ds mod 3 = 0)"
proof (induction ds rule: lookahead_groups.induct)
  case (1 a b c rest)
  show ?case
  proof (cases rest)
    case Nil
    with 1 show ?thesis by simp
  next
    case (Cons d ds)
    have m: "(length (a # b # c # rest) mod 3 = 0) = (length rest mod 3 = 0)"
      by (simp add: mod_Suc) presburger
    from 1 Cons have "lookahead_groups (a # b # c # rest) = lookahead_groups rest"
      by simp
    also from 1 Cons have "\<dots> = (length rest mod 3 = 0)" by simp
    finally show ?thesis using m by simp
  qed
qed simp_all

lemma lookahead_needs_digit: "\<not> is_digit c \<Longrightarrow> \<not> lookahead_groups (c # cs)"
  by (cases "c # cs" rule: lookahead_groups.cases) simp_all

lemma replace_groups_digits:
  "\<forall>c \<in> set ds. is_digit c \<Longrightarrow>
   replace_groups prev ds =
     (if word_before prev \<and> ds \<noteq> [] \<and> length ds mod 3 = 0
      then CHR '' '' # group_from_right ds else group_from_right ds)"
proof (induction ds arbitrary: prev)
  case Nil
  then show ?case by simp
next
  case (Cons d ds)
  have la: "lookahead_groups (d # ds) = (length (d # ds) mod 3 = 0)"
    using lookahead_digits [of "d # ds"] Cons.prems by simp
  have w: "is_word d" using Cons.prems by (simp add: digit_is_word)
  have ih: "replace_groups (Some d) ds =
     (if ds \<noteq> [] \<and> length ds mod 3 = 0
      then CHR '' '' # group_from_right ds else group_from_right ds)"
    using Cons.IH [of "Some d"] Cons.prems w by simp
  show ?case
    unfolding replace_groups.simps non_boundary.simps la ih using w by simp
qed

lemma spec_grouping_Cons:
  "spec_grouping (c # cs) =
     c # concat (map (\<lambda>i. (if (length cs - i) mod 3 = 0 then '' '' else []) @ [cs ! i])
                     [0..<length cs])"
proof -
  have "[0..<length (c # cs)] = 0 # map Suc [0..<length cs]"
    by (simp add: upt_conv_Cons map_Suc_upt del: upt_Suc)
  then show ?thesis
    by (simp add: spec_grouping_def comp_def del: upt_Suc)
qed

lemma tail_grouping:
  "concat (map (\<lambda>i. (if (length cs - i) mod 3 = 0 then '' '' else []) @ [cs ! i])
               [0..<length cs]) =
   (if cs \<noteq> [] \<and> length cs mod 3 = 0 then CHR '' '' # group_from_right cs
    else group_from_right cs)"
proof (induction cs)
  case Nil
  then show ?case by simp
next
  case (Cons c cs)
  have u: "[0..<length (c # cs)] = 0 # map Suc [0..<length cs]"
    by (simp add: upt_conv_Cons map_Suc_upt del: upt_Suc)
  show ?case
    unfolding u using Cons.IH by (simp add: comp_def del: upt_Suc)
qed

lemma spec_grouping_eq: "spec_grouping ds = group_from_right ds"
proof (cases ds)
  case Nil
  then show ?thesis by (simp add: spec_grouping_def)
next
  case (Cons c cs)
  then show ?thesis by (simp add: spec_grouping_Cons tail_grouping)
qed

lemma split_dot_no_dot: "CHR ''.'' \<notin> set p \<Longrightarrow> split_dot p = [p]"
  by (induction p) auto

lemma split_dot_append:
  "CHR ''.'' \<notin> set p \<Longrightarrow> split_dot (p @ CHR ''.'' # r) = p # split_dot r"
  by (induction p) auto

lemma join_dot_Cons_split: "join_dot (p # split_dot r) = p @ CHR ''.'' # r"
proof -
  obtain q qs where sp: "split_dot r = q # qs"
    using split_dot_nonempty [of r] by (cases "split_dot r") auto
  have "join_dot (p # q # qs) = p @ CHR ''.'' # join_dot (q # qs)" by simp
  then show ?thesis using join_split_dot [of r] by (simp add: sp)
qed

lemma add_integer_portion:
  assumes "CHR ''.'' \<notin> set p" and "tail_part = [] \<or> hd tail_part = CHR ''.''"
  shows "addThousandsSeparators (p @ tail_part) = replace_groups None p @ tail_part"
proof (cases tail_part)
  case Nil
  then show ?thesis using assms by (simp add: addThousandsSeparators_def split_dot_no_dot)
next
  case (Cons f r)
  with assms have f: "f = CHR ''.''" by simp
  show ?thesis
    using assms(1) by (simp add: Cons f addThousandsSeparators_def split_dot_append join_dot_Cons_split)
qed

text \<open>
  Claim C7. On a numeric text, that is an optional minus sign, decimal digits and then
  nothing or a point followed by anything, \<open>addThousandsSeparators\<close> changes the digits
  before the point only: it puts one space before each digit that is not the first and
  has a multiple of three digits from itself to the point (\<open>spec_grouping\<close>), and it
  returns the sign and everything from the point on as they are.
\<close>

theorem C7_grouping:
  assumes "\<forall>c \<in> set ds. is_digit c"
    and "sign = [] \<or> sign = ''-''"
    and "tail_part = [] \<or> hd tail_part = CHR ''.''"
  shows "addThousandsSeparators (sign @ ds @ tail_part) = sign @ spec_grouping ds @ tail_part"
proof -
  have "CHR ''.'' \<notin> set ds"
    using assms(1) digit_not_dot by blast
  moreover have "CHR ''.'' \<notin> set sign"
    using assms(2) by (elim disjE) simp_all
  ultimately have nodot: "CHR ''.'' \<notin> set (sign @ ds)"
    by simp
  have rg: "replace_groups None (sign @ ds) = sign @ group_from_right ds"
    using assms(2)
  proof
    assume "sign = []"
    then show ?thesis using replace_groups_digits [OF assms(1), of None] by simp
  next
    assume s: "sign = ''-''"
    have "replace_groups None (CHR ''-'' # ds) = CHR ''-'' # replace_groups (Some CHR ''-'') ds"
      by (simp add: lookahead_needs_digit minus_not_digit)
    then show ?thesis
      using replace_groups_digits [OF assms(1), of "Some CHR ''-''"]
      by (simp add: s minus_not_word)
  qed
  have "addThousandsSeparators ((sign @ ds) @ tail_part) = replace_groups None (sign @ ds) @ tail_part"
    using nodot assms(3) by (rule add_integer_portion)
  then show ?thesis by (simp add: rg spec_grouping_eq)
qed


theorem C7_grouping_witness:
  "addThousandsSeparators ''1200.50'' = ''1 200.50'' \<and>
   addThousandsSeparators ''-1234567.5'' = ''-1 234 567.5''"
proof -
  have d1: "\<forall>c \<in> set ''1200''. is_digit c"
    by (simp add: is_digit_def)
  have d2: "\<forall>c \<in> set ''1234567''. is_digit c"
    by (simp add: is_digit_def)
  have g1: "spec_grouping ''1200'' = ''1 200''"
    by code_simp
  have g2: "spec_grouping ''1234567'' = ''1 234 567''"
    by code_simp
  show ?thesis
    using C7_grouping [OF d1, of "[]" "''.50''"]
      C7_grouping [OF d2, of "''-''" "''.5''"]
    by (simp add: g1 g2)
qed

section \<open>The commit on blur\<close>


lemma js_lt_not_NaN: "js_lt P a b \<Longrightarrow> \<not> isNaN a \<and> \<not> isNaN b"
  by (cases a; cases b) simp_all

lemma validateMinMax_iff:
  "validateMinMax P p num =
     ((min_prop p \<noteq> ''*'' \<and> js_lt P num (parseFloat P (min_prop p)))
      \<or> (max_prop p \<noteq> ''*'' \<and> js_gt P num (parseFloat P (max_prop p))))"
  using js_lt_not_NaN [of P num "parseFloat P (min_prop p)"]
        js_lt_not_NaN [of P "parseFloat P (max_prop p)" num]
  by (auto simp: validateMinMax_def js_gt_def Let_def)

lemma validateMinMax2_iff: "validateMinMax2 P p num = (\<not> validateMinMax P p num)"
  by (simp add: validateMinMax_iff validateMinMax2_def)

lemma evaluateFormula_plain:
  "\<not> startsWithEq input \<Longrightarrow> evaluateFormula P p input = Some input"
  by (simp add: evaluateFormula_def)

lemma evaluateFormula_None:
  "evaluateFormula P p input = None \<Longrightarrow> startsWithEq input"
  by (simp add: evaluateFormula_def split: if_splits)


text \<open>The commit of the first version, once the formula step has produced a working text.\<close>

lemma handleBlur_working_text:
  assumes "value_st s \<noteq> []"
    and "evaluateFormula P p (removeThousandsSeparators (value_st s)) = Some w"
  shows "handleBlur P p s =
     (case toFixed P (parseFloat P w) (decimals P p) of
        None \<Rightarrow> (s\<lparr>error_st := validateMinMax P p (parseFloat P w)\<rparr>, [Uncaught])
      | Some t \<Rightarrow> write_back p (addThousandsSeparators t)
                   (s\<lparr>error_st := validateMinMax P p (parseFloat P w)\<rparr>))"
  using assms by (simp add: handleBlur_def Let_def)

lemma handleBlur_formula_failure:
  assumes "value_st s \<noteq> []"
    and "evaluateFormula P p (removeThousandsSeparators (value_st s)) = None"
  shows "handleBlur P p s = (s\<lparr>error_st := True\<rparr>, [FocusSelfLater])"
  using assms evaluateFormula_None [OF assms(2)] by (simp add: handleBlur_def Let_def)






text \<open>
  Claim C1. The first version has no test for \<open>NaN\<close>: on the text \<open>-\<close>, which does
  not parse as a number, its commit leaves the error flag off, writes \<open>NaN\<close> into the
  field and passes \<open>NaN\<close> to \<open>onChange\<close>, and does not ask for the focus. The second
  version does what the claim says (\<open>handleBlur2_not_a_number\<close> below).
\<close>

theorem C1_first_version_writes_NaN:
  "isNaN (parseFloat exact_platform (removeThousandsSeparators ''-''))
   \<and> handleBlur exact_platform
     \<lparr>min_prop = ''*'', max_prop = ''*'', step_prop = ''*'', dec_prop = ''*'',
      id_prop = ''mainInput'', onChange_given = True\<rparr>
     \<lparr>value_st = ''-'', error_st = False\<rparr>
   = (\<lparr>value_st = ''NaN'', error_st = False\<rparr>, [OnChange ''NaN''])"
  by code_simp

text \<open>
  Claim C3. On the empty field the commit of the first version returns at once and
  changes nothing (\<open>handleBlur_empty\<close> above, for every platform and state). The second
  version has no test for the empty text: its commit on the empty field parses the
  empty text to \<open>NaN\<close>, sets the error flag and takes the focus back.
\<close>

theorem C3_second_version_flags_empty:
  "handleBlur exact_platform
     \<lparr>min_prop = ''*'', max_prop = ''*'', step_prop = ''*'', dec_prop = ''*'',
      id_prop = ''mainInput'', onChange_given = True\<rparr>
     \<lparr>value_st = [], error_st = False\<rparr>
   = (\<lparr>value_st = [], error_st = False\<rparr>, [])
   \<and> handleBlur2 exact_platform
     \<lparr>min_prop = ''*'', max_prop = ''*'', step_prop = ''*'', dec_prop = ''*'',
      id_prop = ''mainInput'', onChange_given = True\<rparr>
     \<lparr>value_st = [], error_st = False\<rparr>
   = (\<lparr>value_st = [], error_st = True\<rparr>, [FocusSelf])"
  by code_simp

lemma handleBlur2_not_a_number:
  assumes "evaluateFormula P p (removeThousandsSeparators (value_st s)) = Some w"
    and "isNaN (parseFloat P w)"
  shows "handleBlur2 P p s = (s\<lparr>error_st := True\<rparr>, [FocusSelf])"
  using assms by (simp add: handleBlur2_def Let_def)

lemma handleBlur_not_a_number:
  assumes "value_st s \<noteq> []"
    and "evaluateFormula P p (removeThousandsSeparators (value_st s)) = Some w"
    and "isNaN (parseFloat P w)"
  shows "error_st (fst (handleBlur P p s)) = False"
    and "FocusSelfLater \<notin> set (snd (handleBlur P p s))"
proof -
  have nv: "\<not> validateMinMax P p (parseFloat P w)"
    using assms(3) js_lt_not_NaN by (auto simp: validateMinMax_iff js_gt_def)
  show "error_st (fst (handleBlur P p s)) = False"
    using handleBlur_working_text [OF assms(1,2)] nv
    by (simp add: write_back_def split: option.splits)
  show "FocusSelfLater \<notin> set (snd (handleBlur P p s))"
    using handleBlur_working_text [OF assms(1,2)]
    by (simp add: write_back_def split: option.splits)
qed






section \<open>The wheel\<close>








section \<open>Navigation between the fields\<close>


lemma indexOf_absent: "x \<notin> set xs \<Longrightarrow> indexOf xs x = - 1"
  by (induction xs) auto

lemma indexOf_fieldOrder:
  "indexOf fieldOrder ''mainInput'' = 0"
  "indexOf fieldOrder ''minInput'' = 1"
  "indexOf fieldOrder ''maxInput'' = 2"
  "indexOf fieldOrder ''stepInput'' = 3"
  "indexOf fieldOrder ''decInput'' = 4"
  by (simp_all add: fieldOrder_def)

lemma length_fieldOrder: "length fieldOrder = 5"
  by (simp add: fieldOrder_def)

lemma navigate_from_index:
  assumes "indexOf fieldOrder currentId = k" and "- 1 \<le> k" and "k < 5"
  shows "navigateToField r ''next'' currentId =
           (if map_of (fields r) (fieldOrder ! nat ((k + 1) mod 5)) = Some True
            then FocusField (fieldOrder ! nat ((k + 1) mod 5)) else NoFocus)"
    and "navigateToField r ''prev'' currentId =
           (if map_of (fields r) (fieldOrder ! nat ((k - 1 + 5) mod 5)) = Some True
            then FocusField (fieldOrder ! nat ((k - 1 + 5) mod 5)) else NoFocus)"
proof -
  from assms(2,3) have k: "k = - 1 \<or> k = 0 \<or> k = 1 \<or> k = 2 \<or> k = 3 \<or> k = 4"
    by arith
  show "navigateToField r ''next'' currentId =
           (if map_of (fields r) (fieldOrder ! nat ((k + 1) mod 5)) = Some True
            then FocusField (fieldOrder ! nat ((k + 1) mod 5)) else NoFocus)"
    using k assms(1)
    by (elim disjE)
       (simp_all add: navigateToField_def length_fieldOrder js_rem_def,
        simp_all add: fieldOrder_def fields_def)
  show "navigateToField r ''prev'' currentId =
           (if map_of (fields r) (fieldOrder ! nat ((k - 1 + 5) mod 5)) = Some True
            then FocusField (fieldOrder ! nat ((k - 1 + 5) mod 5)) else NoFocus)"
    using k assms(1)
    by (elim disjE)
       (simp_all add: navigateToField_def length_fieldOrder js_rem_def,
        simp_all add: fieldOrder_def fields_def)
qed


text \<open>
  Claim C8. From a field of the navigation order, \<open>'next'\<close> resolves to the field at
  \<open>(index + 1) mod count\<close> and \<open>'prev'\<close> to the field at \<open>(index - 1) mod count\<close>, so
  that \<open>'next'\<close> from the last field is the first and \<open>'prev'\<close> from the first is the last.
  The resolved field gets \<open>focus()\<close> when its ref holds an element; otherwise nothing
  happens, and nothing is thrown.
\<close>

theorem C8_navigation_wraps:
  assumes "currentId \<in> set fieldOrder"
  shows "navigateToField r ''next'' currentId =
           (let target = fieldOrder !
                  nat ((indexOf fieldOrder currentId + 1) mod int (length fieldOrder))
            in if map_of (fields r) target = Some True then FocusField target else NoFocus)
       \<and> navigateToField r ''prev'' currentId =
           (let target = fieldOrder !
                  nat ((indexOf fieldOrder currentId - 1) mod int (length fieldOrder))
            in if map_of (fields r) target = Some True then FocusField target else NoFocus)
       \<and> navigateToField r ''next'' (last fieldOrder) =
           (if mainRef r then FocusField (hd fieldOrder) else NoFocus)
       \<and> navigateToField r ''prev'' (hd fieldOrder) =
           (if decRef r then FocusField (last fieldOrder) else NoFocus)"
proof -
  obtain k where k: "indexOf fieldOrder currentId = k" "0 \<le> k" "k < 5"
    using assms by (auto simp: fieldOrder_def)
  have e: "(k - 1 + 5) mod 5 = (k - 1) mod 5"
    by presburger
  have n: "navigateToField r ''next'' currentId =
           (let target = fieldOrder !
                  nat ((indexOf fieldOrder currentId + 1) mod int (length fieldOrder))
            in if map_of (fields r) target = Some True then FocusField target else NoFocus)"
    using navigate_from_index(1) [of currentId k r] k
    by (simp add: length_fieldOrder Let_def)
  have p: "navigateToField r ''prev'' currentId =
           (let target = fieldOrder !
                  nat ((indexOf fieldOrder currentId - 1) mod int (length fieldOrder))
            in if map_of (fields r) target = Some True then FocusField target else NoFocus)"
    using navigate_from_index(2) [of currentId k r] k
    by (simp only: length_fieldOrder Let_def e) simp
  have l: "navigateToField r ''next'' (last fieldOrder) =
           (if mainRef r then FocusField (hd fieldOrder) else NoFocus)"
    using navigate_from_index(1) [of "''decInput''" 4 r]
    by (simp add: indexOf_fieldOrder) (simp add: fieldOrder_def fields_def)
  have f: "navigateToField r ''prev'' (hd fieldOrder) =
           (if decRef r then FocusField (last fieldOrder) else NoFocus)"
    using navigate_from_index(2) [of "''mainInput''" 0 r]
    by (simp add: indexOf_fieldOrder) (simp add: fieldOrder_def fields_def)
  from n p l f show ?thesis by (intro conjI)
qed

theorem C8_navigation_wraps_witness:
  "navigateToField \<lparr>mainRef = True, minRef = True, maxRef = True, stepRef = True, decRef = True\<rparr>
     ''next'' ''decInput'' = FocusField ''mainInput''
   \<and> navigateToField \<lparr>mainRef = True, minRef = True, maxRef = True, stepRef = True, decRef = True\<rparr>
     ''prev'' ''mainInput'' = FocusField ''decInput''
   \<and> navigateToField \<lparr>mainRef = True, minRef = True, maxRef = True, stepRef = True, decRef = False\<rparr>
     ''prev'' ''mainInput'' = NoFocus
   \<and> navigateToField \<lparr>mainRef = True, minRef = True, maxRef = True, stepRef = True, decRef = True\<rparr>
     ''next'' ''minInput'' = FocusField ''maxInput''"
proof -
  let ?r = "\<lparr>mainRef = True, minRef = True, maxRef = True, stepRef = True, decRef = True\<rparr>"
  let ?q = "\<lparr>mainRef = True, minRef = True, maxRef = True, stepRef = True, decRef = False\<rparr>"
  have m1: "''decInput'' \<in> set fieldOrder" by (simp add: fieldOrder_def)
  have m3: "''minInput'' \<in> set fieldOrder" by (simp add: fieldOrder_def)
  have h: "hd fieldOrder = ''mainInput''" "last fieldOrder = ''decInput''"
    by (simp_all add: fieldOrder_def)
  have t: "fieldOrder ! nat ((indexOf fieldOrder ''minInput'' + 1) mod int (length fieldOrder))
           = ''maxInput''"
    by (simp add: indexOf_fieldOrder length_fieldOrder) (simp add: fieldOrder_def)
  have w1: "navigateToField ?r ''next'' ''decInput'' = FocusField ''mainInput''"
    using C8_navigation_wraps [OF m1, of ?r, THEN conjunct2, THEN conjunct2, THEN conjunct1]
    unfolding h by simp
  have w2: "navigateToField ?r ''prev'' ''mainInput'' = FocusField ''decInput''"
    using C8_navigation_wraps [OF m1, of ?r, THEN conjunct2, THEN conjunct2, THEN conjunct2]
    unfolding h by simp
  have w3: "navigateToField ?q ''prev'' ''mainInput'' = NoFocus"
    using C8_navigation_wraps [OF m1, of ?q, THEN conjunct2, THEN conjunct2, THEN conjunct2]
    unfolding h by simp
  have w4: "navigateToField ?r ''next'' ''minInput'' = FocusField ''maxInput''"
    using C8_navigation_wraps [OF m3, of ?r, THEN conjunct1]
    unfolding Let_def t by (simp add: fields_def)
  from w1 w2 w3 w4 show ?thesis by (intro conjI)
qed

text \<open>
  Claim C10. For an identifier that is not in the navigation order \<open>indexOf\<close> gives
  \<open>-1\<close>, and the request is carried out all the same: \<open>'next'\<close> resolves to the first
  field (index \<open>0\<close>) and \<open>'prev'\<close> to the last but one (index \<open>count - 2\<close>), which gets
  \<open>focus()\<close> when its ref holds an element.
\<close>

theorem C10_unknown_field:
  assumes "currentId \<notin> set fieldOrder"
  shows "indexOf fieldOrder currentId = - 1
       \<and> navigateToField r ''next'' currentId =
           (if mainRef r then FocusField (fieldOrder ! 0) else NoFocus)
       \<and> navigateToField r ''prev'' currentId =
           (if stepRef r then FocusField (fieldOrder ! (length fieldOrder - 2)) else NoFocus)"
proof -
  have i: "indexOf fieldOrder currentId = - 1"
    using assms by (rule indexOf_absent)
  have n: "navigateToField r ''next'' currentId =
           (if mainRef r then FocusField (fieldOrder ! 0) else NoFocus)"
    using navigate_from_index(1) [OF i, of r]
    by simp (simp add: fieldOrder_def fields_def)
  have p: "navigateToField r ''prev'' currentId =
           (if stepRef r then FocusField (fieldOrder ! (length fieldOrder - 2)) else NoFocus)"
    using navigate_from_index(2) [OF i, of r]
    by simp (simp add: fieldOrder_def fields_def)
  from i n p show ?thesis by (intro conjI)
qed

theorem C10_unknown_field_witness:
  "navigateToField \<lparr>mainRef = True, minRef = True, maxRef = True, stepRef = True, decRef = True\<rparr>
     ''next'' ''otherInput'' = FocusField ''mainInput''
   \<and> navigateToField \<lparr>mainRef = True, minRef = True, maxRef = True, stepRef = True, decRef = True\<rparr>
     ''prev'' ''otherInput'' = FocusField ''stepInput''"
proof -
  have a: "''otherInput'' \<notin> set fieldOrder" by (simp add: fieldOrder_def)
  have t: "fieldOrder ! 0 = ''mainInput''" "fieldOrder ! (length fieldOrder - 2) = ''stepInput''"
    by (simp_all add: fieldOrder_def)
  show ?thesis
    using C10_unknown_field [OF a, of "\<lparr>mainRef = True, minRef = True, maxRef = True, stepRef = True, decRef = True\<rparr>"]
    unfolding t by simp
qed


section \<open>When the error flag changes\<close>


lemma handleKeyDown_error: "error_st (fst (handleKeyDown p e s)) = error_st s"
  by (simp add: handleKeyDown_def)

lemma handleBlur_ignores_old_error:
  "value_st s \<noteq> [] \<Longrightarrow> handleBlur P p (s\<lparr>error_st := b\<rparr>) = handleBlur P p (s\<lparr>error_st := False\<rparr>)"
  by (simp add: handleBlur_def Let_def write_back_def split: option.splits)

lemma handleWheel_ignores_old_error:
  "step_prop p \<noteq> ''*'' \<Longrightarrow>
   handleWheel P p e (s\<lparr>error_st := b\<rparr>) = handleWheel P p e (s\<lparr>error_st := False\<rparr>)"
  by (simp add: handleWheel_def Let_def write_back_def split: option.splits)

lemma handleBlur_error:
  assumes "value_st s \<noteq> []"
  shows "error_st (fst (handleBlur P p s)) =
     (case evaluateFormula P p (removeThousandsSeparators (value_st s)) of
        None \<Rightarrow> True
      | Some w \<Rightarrow> validateMinMax P p (parseFloat P w))"
proof (cases "evaluateFormula P p (removeThousandsSeparators (value_st s))")
  case None
  then show ?thesis using handleBlur_formula_failure [OF assms None] by simp
next
  case (Some w)
  then show ?thesis using handleBlur_working_text [OF assms Some]
    by (simp add: write_back_def split: option.splits)
qed

lemma handleWheel_error:
  assumes "step_prop p \<noteq> ''*''"
  shows "error_st (fst (handleWheel P p e s)) =
     validateMinMax P p
       (if js_lt P (deltaY e) (Num (literal P 0))
        then js_add P (js_or_zero P (parseFloat P (removeThousandsSeparators (value_st s))))
                      (parseFloat P (step_prop p))
        else js_sub P (js_or_zero P (parseFloat P (removeThousandsSeparators (value_st s))))
                      (parseFloat P (step_prop p)))"
  using assms by (simp add: handleWheel_def Let_def write_back_def split: option.splits)

text \<open>
  Claim C9 (first version). Typing (\<open>handleInput\<close>), gaining the focus (\<open>handleFocus\<close>)
  and pressing a key (\<open>handleKeyDown\<close>) leave the error flag as it is. A commit on blur
  of a text that is not empty, and a wheel event with a step, compute the flag anew: the
  outcome is the one from a cleared flag, whatever the flag was, and the new flag is
  "the formula failed" or \<open>validateMinMax\<close> of the number committed. (The commit on the
  empty text and the wheel without a step return before anything is computed.)
\<close>

theorem C9_error_flag_only_at_commits:
  "error_st (fst (handleInput rawValue s)) = error_st s
   \<and> error_st (fst (handleFocus s)) = error_st s
   \<and> error_st (fst (handleKeyDown p k s)) = error_st s
   \<and> (value_st s \<noteq> [] \<longrightarrow>
        handleBlur P p (s\<lparr>error_st := b\<rparr>) = handleBlur P p (s\<lparr>error_st := False\<rparr>)
        \<and> error_st (fst (handleBlur P p s)) =
            (case evaluateFormula P p (removeThousandsSeparators (value_st s)) of
               None \<Rightarrow> True
             | Some w \<Rightarrow> validateMinMax P p (parseFloat P w)))
   \<and> (step_prop p \<noteq> ''*'' \<longrightarrow>
        handleWheel P p e (s\<lparr>error_st := b\<rparr>) = handleWheel P p e (s\<lparr>error_st := False\<rparr>)
        \<and> error_st (fst (handleWheel P p e s)) =
            validateMinMax P p
              (if js_lt P (deltaY e) (Num (literal P 0))
               then js_add P (js_or_zero P (parseFloat P (removeThousandsSeparators (value_st s))))
                             (parseFloat P (step_prop p))
               else js_sub P (js_or_zero P (parseFloat P (removeThousandsSeparators (value_st s))))
                             (parseFloat P (step_prop p))))"
proof (intro conjI impI)
  show "error_st (fst (handleInput rawValue s)) = error_st s"
    by (simp add: handleInput_def)
  show "error_st (fst (handleFocus s)) = error_st s"
    by (simp add: handleFocus_def)
  show "error_st (fst (handleKeyDown p k s)) = error_st s"
    by (rule handleKeyDown_error)
next
  assume "value_st s \<noteq> []"
  then show "handleBlur P p (s\<lparr>error_st := b\<rparr>) = handleBlur P p (s\<lparr>error_st := False\<rparr>)"
    by (rule handleBlur_ignores_old_error)
next
  assume "value_st s \<noteq> []"
  then show "error_st (fst (handleBlur P p s)) =
            (case evaluateFormula P p (removeThousandsSeparators (value_st s)) of
               None \<Rightarrow> True
             | Some w \<Rightarrow> validateMinMax P p (parseFloat P w))"
    by (rule handleBlur_error)
next
  assume "step_prop p \<noteq> ''*''"
  then show "handleWheel P p e (s\<lparr>error_st := b\<rparr>) = handleWheel P p e (s\<lparr>error_st := False\<rparr>)"
    by (rule handleWheel_ignores_old_error)
next
  assume "step_prop p \<noteq> ''*''"
  then show "error_st (fst (handleWheel P p e s)) =
            validateMinMax P p
              (if js_lt P (deltaY e) (Num (literal P 0))
               then js_add P (js_or_zero P (parseFloat P (removeThousandsSeparators (value_st s))))
                             (parseFloat P (step_prop p))
               else js_sub P (js_or_zero P (parseFloat P (removeThousandsSeparators (value_st s))))
                             (parseFloat P (step_prop p)))"
    by (rule handleWheel_error)
qed


theorem C9_error_flag_only_at_commits_witness:
  "handleBlur exact_platform
     \<lparr>min_prop = ''10'', max_prop = ''20'', step_prop = ''5'', dec_prop = ''2'',
      id_prop = ''mainInput'', onChange_given = True\<rparr>
     \<lparr>value_st = ''15'', error_st = True\<rparr>
   = (\<lparr>value_st = ''15.00'', error_st = False\<rparr>, [OnChange ''15.00''])
   \<and> handleWheel exact_platform
     \<lparr>min_prop = ''10'', max_prop = ''20'', step_prop = ''5'', dec_prop = ''2'',
      id_prop = ''mainInput'', onChange_given = True\<rparr>
     \<lparr>deltaY = Num (- 100)\<rparr> \<lparr>value_st = ''10.00'', error_st = True\<rparr>
   = (\<lparr>value_st = ''15.00'', error_st = False\<rparr>, [PreventDefault, OnChange ''15.00''])"
proof -
  let ?p = "\<lparr>min_prop = ''10'', max_prop = ''20'', step_prop = ''5'', dec_prop = ''2'',
             id_prop = ''mainInput'', onChange_given = True\<rparr>"
  let ?a = "\<lparr>value_st = ''15'', error_st = True\<rparr>"
  let ?c = "\<lparr>value_st = ''10.00'', error_st = True\<rparr>"
  let ?e = "\<lparr>deltaY = Num (- 100 :: rat)\<rparr>"
  have n: "value_st ?a \<noteq> []" by simp
  have st: "step_prop ?p \<noteq> ''*''" by simp
  have b: "handleBlur exact_platform ?p (?a\<lparr>error_st := True\<rparr>)
           = handleBlur exact_platform ?p (?a\<lparr>error_st := False\<rparr>)"
    by (rule C9_error_flag_only_at_commits
          [of _ ?a ?p _ exact_platform True ?e,
           THEN conjunct2, THEN conjunct2, THEN conjunct2, THEN conjunct1,
           THEN mp, OF n, THEN conjunct1])
  have w: "handleWheel exact_platform ?p ?e (?c\<lparr>error_st := True\<rparr>)
           = handleWheel exact_platform ?p ?e (?c\<lparr>error_st := False\<rparr>)"
    by (rule C9_error_flag_only_at_commits
          [of _ ?c ?p _ exact_platform True ?e,
           THEN conjunct2, THEN conjunct2, THEN conjunct2, THEN conjunct2,
           THEN mp, OF st, THEN conjunct1])
  have b0: "handleBlur exact_platform ?p \<lparr>value_st = ''15'', error_st = False\<rparr>
            = (\<lparr>value_st = ''15.00'', error_st = False\<rparr>, [OnChange ''15.00''])"
    by code_simp
  have w0: "handleWheel exact_platform ?p ?e \<lparr>value_st = ''10.00'', error_st = False\<rparr>
            = (\<lparr>value_st = ''15.00'', error_st = False\<rparr>, [PreventDefault, OnChange ''15.00''])"
    by code_simp
  from b b0 have "handleBlur exact_platform ?p ?a
       = (\<lparr>value_st = ''15.00'', error_st = False\<rparr>, [OnChange ''15.00''])"
    by simp
  moreover from w w0 have "handleWheel exact_platform ?p ?e ?c
       = (\<lparr>value_st = ''15.00'', error_st = False\<rparr>, [PreventDefault, OnChange ''15.00''])"
    by simp
  ultimately show ?thesis by (intro conjI)
qed


end
